theory Spec2Isabelle
  imports Complex_Main "HOL-Library.Sublist" "HOL-Library.Log_Nat"
begin

section \<open>Strings\<close>

text \<open>
  A JavaScript string is modelled as a \<^typ>\<open>string\<close>: a list of code units below 256
  (the Latin-1 range of UTF-16). The string methods the analysis uses are written out on
  that range.
\<close>

definition code :: "char \<Rightarrow> nat" where
  "code c = of_char c"

text \<open>\<^verbatim>\<open>String.prototype.toLowerCase\<close>: A-Z and the Latin-1 capitals (not the
  multiplication sign, 215) move up by 32.\<close>

definition lowerChar :: "char \<Rightarrow> char" where
  "lowerChar c =
     (let n = code c in
      if (65 \<le> n \<and> n \<le> 90) \<or> (192 \<le> n \<and> n \<le> 214) \<or> (216 \<le> n \<and> n \<le> 222)
      then char_of (n + 32) else c)"

definition toLowerCase :: "string \<Rightarrow> string" where
  "toLowerCase s = map lowerChar s"

text \<open>White space and line terminators below 256: what \<^verbatim>\<open>trim\<close> removes and
  what \<^verbatim>\<open>\s\<close> matches.\<close>

definition isWhiteSpace :: "char \<Rightarrow> bool" where
  "isWhiteSpace c = (let n = code c in (9 \<le> n \<and> n \<le> 13) \<or> n = 32 \<or> n = 160)"

definition trim :: "string \<Rightarrow> string" where
  "trim s = rev (dropWhile isWhiteSpace (rev (dropWhile isWhiteSpace s)))"

text \<open>\<^verbatim>\<open>s.includes(t)\<close>: \<open>t\<close> occurs in \<open>s\<close> as a contiguous run.\<close>

fun str_includes :: "string \<Rightarrow> string \<Rightarrow> bool" where
  "str_includes [] t = (t = [])"
| "str_includes (c # s) t = (prefix t (c # s) \<or> str_includes s t)"

text \<open>\<^verbatim>\<open>xs.join(', ')\<close>.\<close>

fun join :: "string list \<Rightarrow> string" where
  "join [] = []"
| "join [x] = x"
| "join (x # y # ys) = x @ '', '' @ join (y # ys)"

section \<open>The regular expressions built from brand names\<close>

text \<open>
  \<^verbatim>\<open>new RegExp(`\\b${brandLower}\\b`, 'gi')\<close> hands the lower-cased brand name to the
  regular-expression engine as pattern source, between two word-boundary assertions.
  The engine is modelled for the sources made of pattern characters, \<^verbatim>\<open>.\<close> and the
  quantifiers \<^verbatim>\<open>*\<close>, \<^verbatim>\<open>+\<close>, \<^verbatim>\<open>?\<close> (each greedy, or lazy with a following
  \<^verbatim>\<open>?\<close>). A brand name holding one of \<^verbatim>\<open>^ $ \ ( ) [ ] { } |\<close> is outside that
  fragment; what the engine does with it is a parameter of the model.
\<close>

datatype atom = PatternCharacter char | Dot

datatype quantifier = Once | Star bool | Plus bool | Opt bool
  \<comment> \<open>the flag is \<open>True\<close> for a greedy quantifier\<close>

datatype rterm = WordBoundary | Atom atom quantifier

definition isQuantifierChar :: "char \<Rightarrow> bool" where
  "isQuantifierChar c = (c = CHR ''*'' \<or> c = CHR ''+'' \<or> c = CHR ''?'')"

definition outsideFragment :: "char \<Rightarrow> bool" where
  "outsideFragment c = (c \<in> set ''^$()[]{}|'' \<or> c = CHR 0x5C)"

definition atomOf :: "char \<Rightarrow> atom" where
  "atomOf c = (if c = CHR ''.'' then Dot else PatternCharacter c)"

definition quantifierOf :: "char \<Rightarrow> bool \<Rightarrow> quantifier" where
  "quantifierOf q greedy =
     (if q = CHR ''*'' then Star greedy else if q = CHR ''+'' then Plus greedy else Opt greedy)"

text \<open>The terms of a source inside the fragment; \<open>None\<close> is the engine's SyntaxError
  ("nothing to repeat"): a quantifier with no atom before it.\<close>

fun parseTerms :: "string \<Rightarrow> rterm list option" where
  "parseTerms [] = Some []"
| "parseTerms (c # cs) =
     (if isQuantifierChar c then None
      else case cs of
        [] \<Rightarrow> Some [Atom (atomOf c) Once]
      | q # cs' \<Rightarrow>
          if isQuantifierChar q then
            (case cs' of
               [] \<Rightarrow> Some [Atom (atomOf c) (quantifierOf q True)]
             | l # cs'' \<Rightarrow>
                 if l = CHR ''?''
                 then map_option ((#) (Atom (atomOf c) (quantifierOf q False))) (parseTerms cs'')
                 else map_option ((#) (Atom (atomOf c) (quantifierOf q True))) (parseTerms cs'))
          else map_option ((#) (Atom (atomOf c) Once)) (parseTerms cs))"

text \<open>The pattern \<^verbatim>\<open>\b<source>\b\<close>. A quantifier at the head of the source would
  apply to the assertion, which the engine rejects as well.\<close>

definition compile :: "string \<Rightarrow> rterm list option" where
  "compile source = map_option (\<lambda>ts. WordBoundary # ts @ [WordBoundary]) (parseTerms source)"

text \<open>Matching with the \<^verbatim>\<open>i\<close> flag compares canonical (upper-case) code units; word
  characters are \<^verbatim>\<open>[A-Za-z0-9_]\<close>; \<^verbatim>\<open>.\<close> matches all but line terminators.\<close>

definition Canonicalize :: "char \<Rightarrow> char" where
  "Canonicalize c =
     (let n = code c in
      if (97 \<le> n \<and> n \<le> 122) \<or> (224 \<le> n \<and> n \<le> 246) \<or> (248 \<le> n \<and> n \<le> 254)
      then char_of (n - 32) else c)"

definition isWordChar :: "char \<Rightarrow> bool" where
  "isWordChar c =
     (let n = code c in
      (48 \<le> n \<and> n \<le> 57) \<or> (65 \<le> n \<and> n \<le> 90) \<or> (97 \<le> n \<and> n \<le> 122) \<or> n = 95)"

definition isLineTerminator :: "char \<Rightarrow> bool" where
  "isLineTerminator c = (code c = 10 \<or> code c = 13)"

fun atomMatches :: "atom \<Rightarrow> char \<Rightarrow> bool" where
  "atomMatches (PatternCharacter p) c = (Canonicalize p = Canonicalize c)"
| "atomMatches Dot c = (\<not> isLineTerminator c)"

text \<open>The position in the text is the code unit before it (if any) and the rest of the
  text. \<^verbatim>\<open>\b\<close> holds where exactly one side is a word character.\<close>

definition atBoundary :: "char option \<Rightarrow> string \<Rightarrow> bool" where
  "atBoundary prev rest =
     ((case prev of None \<Rightarrow> False | Some c \<Rightarrow> isWordChar c)
        \<noteq> (case rest of [] \<Rightarrow> False | c # _ \<Rightarrow> isWordChar c))"

text \<open>The backtracking matcher: the first way, in the engine's order of choices, to match
  the terms at this position; the result is the position after the match.\<close>

fun matchTerms :: "rterm list \<Rightarrow> char option \<Rightarrow> string \<Rightarrow> (char option \<times> string) option" where
  "matchTerms [] prev rest = Some (prev, rest)"
| "matchTerms (WordBoundary # ts) prev rest =
     (if atBoundary prev rest then matchTerms ts prev rest else None)"
| "matchTerms (Atom a Once # ts) prev [] = None"
| "matchTerms (Atom a Once # ts) prev (c # rest) =
     (if atomMatches a c then matchTerms ts (Some c) rest else None)"
| "matchTerms (Atom a (Plus g) # ts) prev [] = None"
| "matchTerms (Atom a (Plus g) # ts) prev (c # rest) =
     (if atomMatches a c then matchTerms (Atom a (Star g) # ts) (Some c) rest else None)"
| "matchTerms (Atom a (Star g) # ts) prev [] = matchTerms ts prev []"
| "matchTerms (Atom a (Star g) # ts) prev (c # rest) =
     (if g then
        (if atomMatches a c then
           (case matchTerms (Atom a (Star g) # ts) (Some c) rest of
              Some r \<Rightarrow> Some r
            | None \<Rightarrow> matchTerms ts prev (c # rest))
         else matchTerms ts prev (c # rest))
      else
        (case matchTerms ts prev (c # rest) of
           Some r \<Rightarrow> Some r
         | None \<Rightarrow>
             if atomMatches a c then matchTerms (Atom a (Star g) # ts) (Some c) rest else None))"
| "matchTerms (Atom a (Opt g) # ts) prev [] = matchTerms ts prev []"
| "matchTerms (Atom a (Opt g) # ts) prev (c # rest) =
     (if g then
        (if atomMatches a c then
           (case matchTerms ts (Some c) rest of
              Some r \<Rightarrow> Some r
            | None \<Rightarrow> matchTerms ts prev (c # rest))
         else matchTerms ts prev (c # rest))
      else
        (case matchTerms ts prev (c # rest) of
           Some r \<Rightarrow> Some r
         | None \<Rightarrow> if atomMatches a c then matchTerms ts (Some c) rest else None))"

text \<open>\<^verbatim>\<open>text.match(regex)\<close> with the \<^verbatim>\<open>g\<close> flag collects the matches from left to
  right, each search starting where the last match ended, one code unit further after an
  empty match; the function counts them.\<close>

function countMatches :: "rterm list \<Rightarrow> char option \<Rightarrow> string \<Rightarrow> nat" where
  "countMatches ts prev rest =
     (case matchTerms ts prev rest of
        None \<Rightarrow> (case rest of [] \<Rightarrow> 0 | c # rest' \<Rightarrow> countMatches ts (Some c) rest')
      | Some (prev', rest') \<Rightarrow>
          if length rest' < length rest then Suc (countMatches ts prev' rest')
          else (case rest of [] \<Rightarrow> 1 | c # rest'' \<Rightarrow> Suc (countMatches ts (Some c) rest'')))"
  by pat_completeness auto
termination
  by (relation "measure (\<lambda>(ts, prev, rest). length rest)") auto

datatype error = SyntaxError string | Error string | ConstraintViolation string
  \<comment> \<open>\<open>SyntaxError p\<close>: the engine rejects the pattern source \<open>p\<close>;
      \<open>Error m\<close>: \<^verbatim>\<open>new Error(m)\<close>;
      \<open>ConstraintViolation c\<close>: the database rejects a statement under its constraint \<open>c\<close>\<close>

text \<open>\<^verbatim>\<open>matches ? matches.length : 0\<close> for the pattern of a lower-cased brand name.
  \<open>other\<close> is the engine on the sources outside the modelled fragment.\<close>

definition patternSource :: "string \<Rightarrow> string" where
  "patternSource brandLower = [CHR 0x5C, CHR ''b''] @ brandLower @ [CHR 0x5C, CHR ''b'']"

definition matchCount :: "(string \<Rightarrow> string \<Rightarrow> error + nat) \<Rightarrow> string \<Rightarrow> string \<Rightarrow> error + nat" where
  "matchCount other brandLower text =
     (if list_ex outsideFragment brandLower then other (patternSource brandLower) text
      else case compile brandLower of
             None \<Rightarrow> Inl (SyntaxError (patternSource brandLower))
           | Some ts \<Rightarrow> Inr (countMatches ts None text))"

section \<open>Mention analyzer\<close>

record BrandMention =
  brand :: string
  count :: nat
  context' :: "string list"
  citationUrls :: "string list"

text \<open>\<^verbatim>\<open>text.split(/[.!?]+/)\<close>: the pieces between the maximal runs of sentence
  punctuation, the empty pieces at either end included.\<close>

definition isSentenceEnd :: "char \<Rightarrow> bool" where
  "isSentenceEnd c = (c = CHR ''.'' \<or> c = CHR ''!'' \<or> c = CHR ''?'')"

function splitSentences :: "string \<Rightarrow> string list" where
  "splitSentences [] = [[]]"
| "splitSentences (c # cs) =
     (if isSentenceEnd c then [] # splitSentences (dropWhile isSentenceEnd cs)
      else case splitSentences cs of
             [] \<Rightarrow> [[c]]
           | p # ps \<Rightarrow> (c # p) # ps)"
  by pat_completeness auto
termination
  by (relation "measure length") (auto simp: less_Suc_eq_le length_dropWhile_le)

text \<open>The body of \<^verbatim>\<open>mentions.forEach\<close> in \<^verbatim>\<open>extractBrandMentions\<close>, for one
  mention; building the regular expression may throw.\<close>

definition analyseMention ::
  "(string \<Rightarrow> string \<Rightarrow> error + nat) \<Rightarrow> string \<Rightarrow> string list \<Rightarrow> BrandMention \<Rightarrow> error + BrandMention" where
  "analyseMention other text sentences mention =
     (let brandLower = toLowerCase (brand mention) in
      case matchCount other brandLower text of
        Inl e \<Rightarrow> Inl e
      | Inr n \<Rightarrow>
          Inr (mention\<lparr>count := n,
                 context' := context' mention @
                   map trim (filter (\<lambda>sentence. str_includes (toLowerCase sentence) brandLower)
                     sentences)\<rparr>))"

fun forEachMention ::
  "(BrandMention \<Rightarrow> error + BrandMention) \<Rightarrow> BrandMention list \<Rightarrow> error + BrandMention list" where
  "forEachMention f [] = Inr []"
| "forEachMention f (m # ms) =
     (case f m of
        Inl e \<Rightarrow> Inl e
      | Inr m' \<Rightarrow> (case forEachMention f ms of Inl e \<Rightarrow> Inl e | Inr ms' \<Rightarrow> Inr (m' # ms')))"

definition extractBrandMentions ::
  "(string \<Rightarrow> string \<Rightarrow> error + nat) \<Rightarrow> string \<Rightarrow> string list \<Rightarrow> error + BrandMention list" where
  "extractBrandMentions other text brands =
     (let mentions = map (\<lambda>b. \<lparr>brand = b, count = 0, context' = [], citationUrls = []\<rparr>) brands;
          sentences = filter (\<lambda>s. length (trim s) > 0) (splitSentences text)
      in forEachMention (analyseMention other text sentences) mentions)"

section \<open>Citation extractor\<close>

text \<open>
  \<^verbatim>\<open>/\[([^\]]+)\]\(([^)]+)\)/g\<close> at one position of the text: an opening bracket, the
  longest run of characters other than the closing bracket (at least one), the closing
  bracket, an opening parenthesis, the longest run of characters other than the closing
  parenthesis (at least one), the closing parenthesis. The result is group 2 and the
  length of the match. (A shorter run ends before a character that is not the delimiter,
  so backtracking finds no other match.)
\<close>

definition matchMarkdownLink :: "string \<Rightarrow> (string \<times> nat) option" where
  "matchMarkdownLink s =
     (case s of
        [] \<Rightarrow> None
      | c # s1 \<Rightarrow>
          if c = CHR ''['' then
            (let label = takeWhile (\<lambda>x. x \<noteq> CHR '']'') s1;
                 s2 = dropWhile (\<lambda>x. x \<noteq> CHR '']'') s1
             in if label = [] then None
                else if take 2 s2 = '']('' then
                  (let url = takeWhile (\<lambda>x. x \<noteq> CHR '')'') (drop 2 s2);
                       s3 = dropWhile (\<lambda>x. x \<noteq> CHR '')'') (drop 2 s2)
                   in if url = [] then None
                      else if take 1 s3 = '')'' then Some (url, length label + length url + 4)
                      else None)
                else None)
          else None)"

text \<open>\<^verbatim>\<open>/(https?:\/\/[^\s\)]+)/g\<close> at one position: the scheme, then the longest run
  (at least one) of characters that are neither white space nor a closing parenthesis.\<close>

definition matchPlainUrl :: "string \<Rightarrow> string option" where
  "matchPlainUrl s =
     (let scheme = (if take 8 s = ''https://'' then ''https://''
                    else if take 7 s = ''http://'' then ''http://'' else []);
          run = takeWhile (\<lambda>x. \<not> isWhiteSpace x \<and> x \<noteq> CHR '')'') (drop (length scheme) s)
      in if scheme = [] \<or> run = [] then None else Some (scheme @ run))"

text \<open>The \<^verbatim>\<open>while ((match = regex.exec(text)) !== null)\<close> loops: the search goes through
  the positions from left to right and resumes at the end of each match; \<open>skip\<close> counts
  the positions still inside the last match.\<close>

fun markdownLinks :: "nat \<Rightarrow> string \<Rightarrow> string list" where
  "markdownLinks skip [] = []"
| "markdownLinks skip (c # cs) =
     (if skip > 0 then markdownLinks (skip - 1) cs
      else case matchMarkdownLink (c # cs) of
             None \<Rightarrow> markdownLinks 0 cs
           | Some (url, n) \<Rightarrow> url # markdownLinks (n - 1) cs)"

fun plainUrls :: "nat \<Rightarrow> string \<Rightarrow> string list" where
  "plainUrls skip [] = []"
| "plainUrls skip (c # cs) =
     (if skip > 0 then plainUrls (skip - 1) cs
      else case matchPlainUrl (c # cs) of
             None \<Rightarrow> plainUrls 0 cs
           | Some m \<Rightarrow> m # plainUrls (length m - 1) cs)"

text \<open>\<^verbatim>\<open>match[1].replace(/[.,;!?]+$/, '')\<close>: the trailing run of punctuation goes.\<close>

definition isTrailingPunctuation :: "char \<Rightarrow> bool" where
  "isTrailingPunctuation c = (c \<in> set ''.,;!?'')"

definition stripTrailingPunctuation :: "string \<Rightarrow> string" where
  "stripTrailingPunctuation m = rev (dropWhile isTrailingPunctuation (rev m))"

text \<open>The second loop pushes a URL only when \<^verbatim>\<open>!citations.includes(url)\<close>.\<close>

fun pushPlain :: "string list \<Rightarrow> string list \<Rightarrow> string list" where
  "pushPlain citations [] = citations"
| "pushPlain citations (m # ms) =
     (let url = stripTrailingPunctuation m
      in if url \<in> set citations then pushPlain citations ms
         else pushPlain (citations @ [url]) ms)"

definition extractCitations :: "string \<Rightarrow> string list" where
  "extractCitations text = pushPlain (markdownLinks 0 text) (plainUrls 0 text)"

section \<open>Prompt templates\<close>

definition newline :: string where
  "newline = [CHR 0x0A]"

definition generateVisibilityPrompt :: "string \<Rightarrow> string list \<Rightarrow> string" where
  "generateVisibilityPrompt category brands =
     (let brandsList = join brands in
      ''You are a helpful assistant providing recommendations. When asked about '' @ category
        @ '', please provide a comprehensive answer that mentions specific brands and tools when relevant.''
        @ newline @ newline
        @ ''Question: What are the best options for '' @ category @ ''?'' @ newline @ newline
        @ ''Please provide:'' @ newline
        @ ''1. A detailed answer mentioning specific brands and tools'' @ newline
        @ ''2. Include URLs/citations when mentioning brands (format: [brand name](url))'' @ newline
        @ ''3. Explain the strengths and use cases for each option'' @ newline @ newline
        @ ''Brands to consider: '' @ brandsList @ newline @ newline
        @ ''Provide a natural, helpful response as if answering a user's question.'')"

definition generateCompetitorPrompt :: "string \<Rightarrow> string \<Rightarrow> string list \<Rightarrow> string" where
  "generateCompetitorPrompt category mainBrand competitorBrands =
     (let competitorsList = join competitorBrands in
      ''You are a helpful assistant providing recommendations. When asked about '' @ category
        @ '', please provide a comprehensive answer that mentions specific brands and tools when relevant.''
        @ newline @ newline
        @ ''Question: What are the best options for '' @ category @ ''?'' @ newline @ newline
        @ ''Please provide:'' @ newline
        @ ''1. A detailed answer mentioning specific brands and tools'' @ newline
        @ ''2. Include URLs/citations when mentioning brands (format: [brand name](url))'' @ newline
        @ ''3. Explain the strengths and use cases for each option'' @ newline @ newline
        @ ''Brands to consider: '' @ mainBrand @ '', '' @ competitorsList @ newline @ newline
        @ ''Provide a natural, helpful response as if answering a user's question.'')"

section \<open>Provider adapters and the dispatcher\<close>

datatype AIProvider = openai | anthropic | groq

fun providerName :: "AIProvider \<Rightarrow> string" where
  "providerName openai = ''openai''"
| "providerName anthropic = ''anthropic''"
| "providerName groq = ''groq''"

fun providerLabel :: "AIProvider \<Rightarrow> string" where
  "providerLabel openai = ''OpenAI''"
| "providerLabel anthropic = ''Anthropic''"
| "providerLabel groq = ''Groq''"

record AIResponse =
  text' :: string
  citations :: "string list"

datatype LogLevel = Debug | Info | Warn | Err

text \<open>
  What a request leaves outside the process: the prompts sent to the providers' APIs, in
  order; the lines given to the logger at the levels that are always printed (the
  messages, without their context objects); the database.
\<close>

record 'db world =
  sent :: "(AIProvider \<times> string) list"
  logged :: "(LogLevel \<times> string) list"
  database :: 'db

definition logger :: "LogLevel \<Rightarrow> string \<Rightarrow> 'db world \<Rightarrow> 'db world" where
  "logger level msg w = w\<lparr>logged := logged w @ [(level, msg)]\<rparr>"

text \<open>
  The rows of \<^verbatim>\<open>models.ts\<close> that the service reads, and the three persistence calls
  of the service as it sees them: each may throw, each may give lines to the logger
  (the model methods and \<^verbatim>\<open>query\<close> log an error before they rethrow it), and each may
  change the database.
\<close>

record PromptRun =
  run_id :: nat
  run_category :: string
  run_prompt :: string
  raw_response :: string
  ai_provider :: string

record Brand =
  brand_id' :: nat
  name :: string

record Mention =
  mention_id :: nat
  prompt_run_id :: nat
  brand_id :: nat
  mentioned :: bool
  mention_count :: nat
  mention_context :: "string list"
  citation_urls :: "string list"
  created_at :: nat

text \<open>
  The collaborators of the service: the regular-expression engine outside the modelled
  fragment; the providers' SDK calls (the completion text, or the message of the error
  thrown); the clock; the calls of \<^verbatim>\<open>PromptRunModel.create\<close>,
  \<^verbatim>\<open>BrandModel.getOrCreate\<close> and \<^verbatim>\<open>MentionModel.createOrUpdate\<close>, each with
  its result, the lines it logs and the database it leaves.
\<close>

type_synonym logLines = "(LogLevel \<times> string) list"

record 'db platform =
  RegExp_other :: "string \<Rightarrow> string \<Rightarrow> error + nat"
  sdk :: "AIProvider \<Rightarrow> string \<Rightarrow> string + string"
  toISOString_now :: string
  runCreate ::
    "string \<Rightarrow> string \<Rightarrow> string \<Rightarrow> string \<Rightarrow> 'db \<Rightarrow> (error + PromptRun) \<times> logLines \<times> 'db"
  brandGetOrCreate :: "string \<Rightarrow> 'db \<Rightarrow> (error + Brand) \<times> logLines \<times> 'db"
  mentionCreateOrUpdate ::
    "nat \<Rightarrow> nat \<Rightarrow> bool \<Rightarrow> nat \<Rightarrow> string list \<Rightarrow> string list \<Rightarrow> 'db
       \<Rightarrow> (error + Mention) \<times> logLines \<times> 'db"

text \<open>\<^verbatim>\<open>query(prompt)\<close> of the three provider classes: one call of the SDK; an error
  is logged and rethrown under the provider's label; the citations come from the text.\<close>

definition Provider_query ::
  "'db platform \<Rightarrow> AIProvider \<Rightarrow> string \<Rightarrow> 'db world \<Rightarrow> (error + AIResponse) \<times> 'db world" where
  "Provider_query P provider prompt w =
     (let w1 = w\<lparr>sent := sent w @ [(provider, prompt)]\<rparr> in
      case sdk P provider prompt of
        Inl msg \<Rightarrow>
          (Inl (Error (providerLabel provider @ '' API error: '' @ msg)),
           logger Err (providerLabel provider @ '' query failed'') w1)
      | Inr t \<Rightarrow> (Inr \<lparr>text' = t, citations = extractCitations t\<rparr>, w1))"

text \<open>The constructor of \<^verbatim>\<open>AIService\<close> registers a provider when its API key is set
  and not empty.\<close>

record env =
  OPENAI_API_KEY :: "string option"
  ANTHROPIC_API_KEY :: "string option"
  GROQ_API_KEY :: "string option"

fun apiKey :: "env \<Rightarrow> AIProvider \<Rightarrow> string option" where
  "apiKey e openai = OPENAI_API_KEY e"
| "apiKey e anthropic = ANTHROPIC_API_KEY e"
| "apiKey e groq = GROQ_API_KEY e"

definition truthy :: "string option \<Rightarrow> bool" where
  "truthy v = (case v of None \<Rightarrow> False | Some s \<Rightarrow> s \<noteq> [])"

definition AIService :: "env \<Rightarrow> (AIProvider \<rightharpoonup> string)" where
  "AIService e = (\<lambda>p. if truthy (apiKey e p) then apiKey e p else None)"

definition queryAI ::
  "'db platform \<Rightarrow> (AIProvider \<rightharpoonup> string) \<Rightarrow> AIProvider \<Rightarrow> string \<Rightarrow> string list \<Rightarrow> 'db world
     \<Rightarrow> (error + AIResponse) \<times> 'db world" where
  "queryAI P providers provider category brands w =
     (case providers provider of
        None \<Rightarrow>
          (Inl (Error (''Provider '' @ providerName provider
                  @ '' is not configured or available. Please check your API keys.'')), w)
      | Some providerInstance \<Rightarrow>
          (let prompt = generateVisibilityPrompt category brands;
               w1 = logger Info (''Querying '' @ providerName provider @ '' for category: '' @ category) w
           in Provider_query P provider prompt w1))"

section \<open>The visibility service\<close>

record VisibilityResult =
  category :: string
  brands :: "string list"
  mentions :: "BrandMention list"
  totalMentions :: nat
  timestamp :: string
  promptRunId :: "nat option"

text \<open>\<^verbatim>\<open>url.toLowerCase().split('.')[0]\<close>: the part before the first dot.\<close>

definition beforeFirstDot :: "string \<Rightarrow> string" where
  "beforeFirstDot s = takeWhile (\<lambda>c. c \<noteq> CHR ''.'') s"

text \<open>The filter of the citation assignment, and the assignment itself: the body of
  the second \<^verbatim>\<open>mentions.forEach\<close> of \<^verbatim>\<open>checkVisibility\<close>.\<close>

definition citesBrand :: "string \<Rightarrow> string \<Rightarrow> bool" where
  "citesBrand b url =
     (str_includes (toLowerCase url) (toLowerCase b)
      \<or> str_includes (toLowerCase b) (beforeFirstDot (toLowerCase url)))"

definition assignCitations :: "string list \<Rightarrow> BrandMention \<Rightarrow> BrandMention" where
  "assignCitations cs mention =
     (if count mention > 0 then
        (let specific = filter (citesBrand (brand mention)) cs in
         if length specific = 0 \<and> length cs > 0
         then mention\<lparr>citationUrls := take 2 cs\<rparr>
         else mention\<lparr>citationUrls := specific\<rparr>)
      else mention)"

text \<open>The loop over the brands inside the \<^verbatim>\<open>try\<close> block: the first call that throws
  ends it with the error; the lines logged by the calls come with it.\<close>

fun storeBrands ::
  "'db platform \<Rightarrow> nat \<Rightarrow> BrandMention list \<Rightarrow> string list \<Rightarrow> 'db
     \<Rightarrow> error option \<times> logLines \<times> 'db" where
  "storeBrands P runId ms [] db = (None, [], db)"
| "storeBrands P runId ms (brandName # rest) db =
     (case brandGetOrCreate P brandName db of
        (Inl e, lines1, db1) \<Rightarrow> (Some e, lines1, db1)
      | (Inr b, lines1, db1) \<Rightarrow>
          (let mention = find (\<lambda>m. toLowerCase (brand m) = toLowerCase brandName) ms in
           case mentionCreateOrUpdate P runId (brand_id' b)
                  (case mention of None \<Rightarrow> False | Some m \<Rightarrow> count m > 0)
                  (case mention of None \<Rightarrow> 0 | Some m \<Rightarrow> count m)
                  (case mention of None \<Rightarrow> [] | Some m \<Rightarrow> context' m)
                  (case mention of None \<Rightarrow> [] | Some m \<Rightarrow> citationUrls m) db1 of
             (Inl e, lines2, db2) \<Rightarrow> (Some e, lines1 @ lines2, db2)
           | (Inr _, lines2, db2) \<Rightarrow>
               (case storeBrands P runId ms rest db2 of
                  (outcome, lines3, db3) \<Rightarrow> (outcome, lines1 @ lines2 @ lines3, db3))))"

definition storedPrompt :: "string \<Rightarrow> string list \<Rightarrow> bool \<Rightarrow> string option \<Rightarrow> string" where
  "storedPrompt cat bs isCompetitorMode mainBrand =
     (case mainBrand of
        Some main \<Rightarrow>
          if isCompetitorMode \<and> main \<noteq> []
          then ''Competitor analysis for '' @ cat @ '' - Main brand: '' @ main
                 @ '', Competitors: '' @ join bs
          else ''Visibility check for '' @ cat @ '' - Brands: '' @ join bs
      | None \<Rightarrow> ''Visibility check for '' @ cat @ '' - Brands: '' @ join bs)"

text \<open>The inner \<^verbatim>\<open>try\<close>/\<^verbatim>\<open>catch\<close>: the run id, if the run was created, and the
  world after it, with the lines of the persistence calls in the log; an error is logged
  as a warning and goes no further.\<close>

definition storeRun ::
  "'db platform \<Rightarrow> string \<Rightarrow> string list \<Rightarrow> AIProvider \<Rightarrow> bool \<Rightarrow> string option \<Rightarrow> AIResponse
     \<Rightarrow> BrandMention list \<Rightarrow> 'db world \<Rightarrow> nat option \<times> 'db world" where
  "storeRun P cat bs provider isCompetitorMode mainBrand aiResponse ms w =
     (case runCreate P cat (storedPrompt cat bs isCompetitorMode mainBrand)
             (text' aiResponse) (providerName provider) (database w) of
        (Inl e, lines1, db1) \<Rightarrow>
          (None,
           logger Warn ''Failed to store visibility check in database''
             (w\<lparr>logged := logged w @ lines1, database := db1\<rparr>))
      | (Inr promptRun, lines1, db1) \<Rightarrow>
          (case storeBrands P (run_id promptRun) ms bs db1 of
             (Some e, lines2, db2) \<Rightarrow>
               (Some (run_id promptRun),
                logger Warn ''Failed to store visibility check in database''
                  (w\<lparr>logged := logged w @ lines1 @ lines2, database := db2\<rparr>))
           | (None, lines2, db2) \<Rightarrow>
               (Some (run_id promptRun),
                logger Info ''Visibility check stored in database''
                  (w\<lparr>logged := logged w @ lines1 @ lines2, database := db2\<rparr>))))"

definition checkVisibility ::
  "'db platform \<Rightarrow> (AIProvider \<rightharpoonup> string) \<Rightarrow> string \<Rightarrow> string list \<Rightarrow> AIProvider \<Rightarrow> bool
     \<Rightarrow> string option \<Rightarrow> 'db world \<Rightarrow> (error + VisibilityResult) \<times> 'db world" where
  "checkVisibility P providers cat bs provider isCompetitorMode mainBrand w =
     (let w0 = logger Info ''Checking visibility'' w in
      case queryAI P providers provider cat bs w0 of
        (Inl e, w1) \<Rightarrow> (Inl e, logger Err ''Error checking visibility'' w1)
      | (Inr aiResponse, w1) \<Rightarrow>
          (case extractBrandMentions (RegExp_other P) (text' aiResponse) bs of
             Inl e \<Rightarrow> (Inl e, logger Err ''Error checking visibility'' w1)
           | Inr extracted \<Rightarrow>
               (let ms = map (assignCitations (citations aiResponse)) extracted;
                    total = sum_list (map count ms);
                    (runId, w2) = storeRun P cat bs provider isCompetitorMode mainBrand aiResponse ms w1
                in (Inr \<lparr>category = cat, brands = bs, mentions = ms, totalMentions = total,
                         timestamp = toISOString_now P, promptRunId = runId\<rparr>, w2))))"

section \<open>The route \<^verbatim>\<open>POST /api/check-visibility\<close>\<close>

text \<open>The parsed request body, for the well-typed requests: a field is absent
  (\<open>None\<close>) or has the type the route expects.\<close>

record body =
  body_category :: "string option"
  body_brands :: "string list option"
  body_provider :: "string option"
  body_isCompetitorMode :: bool
  body_mainBrand :: "string option"

datatype response =
  Success VisibilityResult
  | BadRequest string
  | ServerError error

definition validProviders :: "AIProvider list" where
  "validProviders = [openai, anthropic, groq]"

text \<open>\<^verbatim>\<open>validProviders.includes(provider) ? provider : 'openai'\<close>\<close>

definition selectProvider :: "string option \<Rightarrow> AIProvider" where
  "selectProvider provider =
     (case find (\<lambda>p. Some (providerName p) = provider) validProviders of
        Some p \<Rightarrow> p
      | None \<Rightarrow> openai)"

definition POST ::
  "'db platform \<Rightarrow> (AIProvider \<rightharpoonup> string) \<Rightarrow> body \<Rightarrow> 'db world \<Rightarrow> response \<times> 'db world" where
  "POST P providers b w =
     (case body_category b of
        None \<Rightarrow> (BadRequest ''Category is required and must be a string'', w)
      | Some cat \<Rightarrow>
          if cat = [] then (BadRequest ''Category is required and must be a string'', w)
          else
            (case body_brands b of
               None \<Rightarrow> (BadRequest ''Brands array is required and must not be empty'', w)
             | Some bs \<Rightarrow>
                 if length bs = 0
                 then (BadRequest ''Brands array is required and must not be empty'', w)
                 else
                   (let aiProvider = selectProvider (body_provider b);
                        competitorMode = body_isCompetitorMode b
                    in if competitorMode \<and> \<not> truthy (body_mainBrand b)
                       then (BadRequest ''Main brand is required when competitor mode is enabled'', w)
                       else
                         (let w0 = logger Info ''Processing visibility check request'' w in
                          case checkVisibility P providers cat bs aiProvider competitorMode
                                 (body_mainBrand b) w0 of
                            (Inr result, w1) \<Rightarrow> (Success result, w1)
                          | (Inl e, w1) \<Rightarrow>
                              (ServerError e, logger Err ''Error checking visibility'' w1)))))"

section \<open>Persistence of mentions\<close>

text \<open>
  The tables of \<^verbatim>\<open>schema.sql\<close>. \<^verbatim>\<open>mentions\<close> has a serial key, foreign keys to the
  two other tables and \<^verbatim>\<open>UNIQUE(prompt_run_id, brand_id)\<close>.
\<close>

record tables =
  tbl_prompt_runs :: "PromptRun list"
  tbl_brands :: "Brand list"
  tbl_mentions :: "Mention list"
  mentions_id_seq :: nat

definition sameKey :: "nat \<Rightarrow> nat \<Rightarrow> Mention \<Rightarrow> bool" where
  "sameKey runId brandId m = (prompt_run_id m = runId \<and> brand_id m = brandId)"

text \<open>
  \<^verbatim>\<open>INSERT INTO mentions (...) VALUES (...) ON CONFLICT (prompt_run_id, brand_id)
  DO UPDATE SET mentioned = EXCLUDED.mentioned, mention_count = EXCLUDED.mention_count,
  context = EXCLUDED.context, citation_urls = EXCLUDED.citation_urls RETURNING *\<close>,
  at the time \<open>now\<close>. The sequence of the key advances for every proposed row. A row with
  the same pair is updated in place; otherwise the row is inserted, if both foreign keys
  are there.
\<close>

definition upsertStatement ::
  "nat \<Rightarrow> nat \<Rightarrow> nat \<Rightarrow> bool \<Rightarrow> nat \<Rightarrow> string list \<Rightarrow> string list \<Rightarrow> tables
     \<Rightarrow> (error + Mention) \<times> tables" where
  "upsertStatement now runId brandId isMentioned mentionCount ctx citationUrls' t =
     (let newId = Suc (mentions_id_seq t);
          t1 = t\<lparr>mentions_id_seq := newId\<rparr>;
          excluded = (\<lambda>m. m\<lparr>mentioned := isMentioned, mention_count := mentionCount,
                              mention_context := ctx, citation_urls := citationUrls'\<rparr>)
      in case find (sameKey runId brandId) (tbl_mentions t) of
           Some old \<Rightarrow>
             (Inr (excluded old),
              t1\<lparr>tbl_mentions :=
                    map (\<lambda>m. if sameKey runId brandId m then excluded m else m)
                      (tbl_mentions t)\<rparr>)
         | None \<Rightarrow>
             if list_ex (\<lambda>r. run_id r = runId) (tbl_prompt_runs t) then
               (if list_ex (\<lambda>b. brand_id' b = brandId) (tbl_brands t) then
                  (let row = \<lparr>mention_id = newId, prompt_run_id = runId, brand_id = brandId,
                               mentioned = isMentioned, mention_count = mentionCount,
                               mention_context = ctx, citation_urls = citationUrls',
                               created_at = now\<rparr>
                   in (Inr row, t1\<lparr>tbl_mentions := tbl_mentions t @ [row]\<rparr>))
                else (Inl (ConstraintViolation ''mentions_brand_id_fkey''), t1))
             else (Inl (ConstraintViolation ''mentions_prompt_run_id_fkey''), t1))"

text \<open>The state of \<^verbatim>\<open>connection.ts\<close> that the models read.\<close>

record connection =
  useSupabase :: bool
  supabaseClient :: bool \<comment> \<open>the client is not \<^verbatim>\<open>null\<close>\<close>

text \<open>\<^verbatim>\<open>SupabaseMentionModel.createOrUpdate\<close>: an \<^verbatim>\<open>upsert\<close> of the row with
  \<^verbatim>\<open>onConflict: 'prompt_run_id,brand_id'\<close>, which the service turns into the same
  statement.\<close>

definition SupabaseMentionModel_createOrUpdate ::
  "connection \<Rightarrow> nat \<Rightarrow> nat \<Rightarrow> nat \<Rightarrow> bool \<Rightarrow> nat \<Rightarrow> string list \<Rightarrow> string list \<Rightarrow> tables
     \<Rightarrow> (error + Mention) \<times> tables" where
  "SupabaseMentionModel_createOrUpdate conn now runId brandId isMentioned mentionCount ctx
       citationUrls' t =
     (if supabaseClient conn
      then upsertStatement now runId brandId isMentioned mentionCount ctx citationUrls' t
      else (Inl (Error ''Supabase client not available''), t))"

text \<open>\<^verbatim>\<open>MentionModel.createOrUpdate\<close>: the Supabase model when Supabase is in use, the
  statement on PostgreSQL otherwise.\<close>

definition MentionModel_createOrUpdate ::
  "connection \<Rightarrow> nat \<Rightarrow> nat \<Rightarrow> nat \<Rightarrow> bool \<Rightarrow> nat \<Rightarrow> string list \<Rightarrow> string list \<Rightarrow> tables
     \<Rightarrow> (error + Mention) \<times> tables" where
  "MentionModel_createOrUpdate conn now runId brandId isMentioned mentionCount ctx
       citationUrls' t =
     (if useSupabase conn
      then SupabaseMentionModel_createOrUpdate conn now runId brandId isMentioned
             mentionCount ctx citationUrls' t
      else upsertStatement now runId brandId isMentioned mentionCount ctx citationUrls' t)"

text \<open>The uniqueness constraint as a property of the table.\<close>

definition uniquePairs :: "tables \<Rightarrow> bool" where
  "uniquePairs t = distinct (map (\<lambda>m. (prompt_run_id m, brand_id m)) (tbl_mentions t))"

section \<open>The visibility score of the page\<close>

text \<open>
  A JavaScript number is a double. The doubles of the score are quotients of counts and
  their products with 100, far from overflow and from the subnormal range, so a double is
  modelled as the rational it denotes, and an operation as the exact operation followed
  by rounding to 53 significant bits, ties to even.
\<close>

definition exponent :: "rat \<Rightarrow> int" where
  "exponent x =
     (let (p, q) = quotient_of x; d = bitlen p - bitlen q
      in if 2 powi d \<le> x then d else d - 1)"

definition roundTiesToEven :: "rat \<Rightarrow> int" where
  "roundTiesToEven q =
     (let f = \<lfloor>q\<rfloor>; r = q - of_int f
      in if r < 1 / 2 then f else if 1 / 2 < r then f + 1 else if even f then f else f + 1)"

definition roundToDouble :: "rat \<Rightarrow> rat" where
  "roundToDouble x =
     (if x = 0 then 0
      else if x < 0 then - (of_int (roundTiesToEven (- x / 2 powi (exponent (- x) - 52)))
                              * 2 powi (exponent (- x) - 52))
      else of_int (roundTiesToEven (x / 2 powi (exponent x - 52))) * 2 powi (exponent x - 52))"

definition Number_divide :: "rat \<Rightarrow> rat \<Rightarrow> rat" where
  "Number_divide a b = roundToDouble (a / b)"

definition Number_times :: "rat \<Rightarrow> rat \<Rightarrow> rat" where
  "Number_times a b = roundToDouble (a * b)"

text \<open>\<^verbatim>\<open>x.toFixed(1)\<close>: the integer \<open>n\<close> with \<open>n / 10\<close> nearest to \<open>x\<close> (the larger one
  of two), written in decimal with a point before its last digit.\<close>

definition digitChar :: "nat \<Rightarrow> char" where
  "digitChar d = char_of (48 + d)"

function digits :: "nat \<Rightarrow> string" where
  "digits n = (if n < 10 then [digitChar n] else digits (n div 10) @ [digitChar (n mod 10)])"
  by pat_completeness auto
termination
  by (relation "measure id") auto

definition fixed1 :: "nat \<Rightarrow> string" where
  "fixed1 n = digits (n div 10) @ ''.'' @ digits (n mod 10)"

definition toFixed1 :: "rat \<Rightarrow> string" where
  "toFixed1 x =
     (if x < 0 then ''-'' @ fixed1 (nat \<lfloor>- x * 10 + 1 / 2\<rfloor>)
      else fixed1 (nat \<lfloor>x * 10 + 1 / 2\<rfloor>))"

datatype jsvalue = JNumber rat | JString string

definition calculateVisibilityScore :: "BrandMention list \<Rightarrow> nat \<Rightarrow> jsvalue" where
  "calculateVisibilityScore ms totalBrands =
     (if totalBrands = 0 then JNumber 0
      else
        (let mentionedBrands = length (filter (\<lambda>m. count m > 0) ms)
         in JString (toFixed1
              (Number_times (Number_divide (of_nat mentionedBrands) (of_nat totalBrands)) 100))))"

section \<open>Delimited occurrences\<close>






section \<open>Example collaborators\<close>

text \<open>
  A platform whose providers all answer \<open>reply\<close>, whose engine finds nothing outside the
  modelled fragment, and whose database is a counter of runs: creating a run works when
  the database is \<open>up\<close>, brands are found, and the insertion of a mention is rejected.
  The calls that throw log their error first, as the model methods do.
\<close>

definition stubPlatform :: "string \<Rightarrow> bool \<Rightarrow> nat platform" where
  "stubPlatform reply up =
     \<lparr>RegExp_other = (\<lambda>source t. Inr 0),
      sdk = (\<lambda>provider prompt. Inr reply),
      toISOString_now = ''2025-01-01T00:00:00.000Z'',
      runCreate = (\<lambda>c p r a db.
        if up then (Inr \<lparr>run_id = Suc db, run_category = c, run_prompt = p, raw_response = r,
                         ai_provider = a\<rparr>, [], Suc db)
        else (Inl (Error ''No database connection available''),
              [(Err, ''Query execution failed''), (Err, ''Error creating prompt run'')], db)),
      brandGetOrCreate = (\<lambda>n db. (Inr \<lparr>brand_id' = length n, name = n\<rparr>, [], db)),
      mentionCreateOrUpdate = (\<lambda>r b m c x u db.
        (Inl (ConstraintViolation ''mentions_brand_id_fkey''),
         [(Err, ''Query execution failed''), (Err, ''Error creating/updating mention'')], db))\<rparr>"

definition onlyOpenAI :: "AIProvider \<rightharpoonup> string" where
  "onlyOpenAI = AIService \<lparr>OPENAI_API_KEY = Some ''sk-test'', ANTHROPIC_API_KEY = None,
                            GROQ_API_KEY = Some []\<rparr>"

definition emptyWorld :: "nat world" where
  "emptyWorld = \<lparr>sent = [], logged = [], database = 0\<rparr>"

definition citedReply :: string where
  "citedReply = ''Acme is fine, see https://a.org, https://b.org and https://c.org''"

definition competitorRequest :: body where
  "competitorRequest =
     \<lparr>body_category = Some ''CRM'', body_brands = Some [''Foo'', ''Bar''],
      body_provider = Some ''openai'', body_isCompetitorMode = True,
      body_mainBrand = Some ''Acme''\<rparr>"

definition geminiRequest :: body where
  "geminiRequest =
     \<lparr>body_category = Some ''CRM'', body_brands = Some [''Acme''],
      body_provider = Some ''gemini'', body_isCompetitorMode = False, body_mainBrand = None\<rparr>"

text \<open>A database with one run and one brand and no mention yet, and the two kinds of
  connection.\<close>

definition seededTables :: tables where
  "seededTables =
     \<lparr>tbl_prompt_runs = [\<lparr>run_id = 1, run_category = ''CRM'',
                           run_prompt = ''Visibility check for CRM - Brands: Acme'',
                           raw_response = ''Acme is fine'', ai_provider = ''openai''\<rparr>],
      tbl_brands = [\<lparr>brand_id' = 1, name = ''Acme''\<rparr>],
      tbl_mentions = [],
      mentions_id_seq = 0\<rparr>"

definition postgres :: connection where
  "postgres = \<lparr>useSupabase = False, supabaseClient = False\<rparr>"

definition supabase :: connection where
  "supabase = \<lparr>useSupabase = True, supabaseClient = True\<rparr>"

definition firstRow :: Mention where
  "firstRow =
     \<lparr>mention_id = 1, prompt_run_id = 1, brand_id = 1, mentioned = False, mention_count = 0,
      mention_context = [], citation_urls = [], created_at = 10\<rparr>"

definition secondRow :: Mention where
  "secondRow =
     \<lparr>mention_id = 1, prompt_run_id = 1, brand_id = 1, mentioned = True, mention_count = 2,
      mention_context = [''Acme is fine''], citation_urls = [''https://acme.com''],
      created_at = 10\<rparr>"

text \<open>The mentions of 2001 tracked brands, all but the last one mentioned.\<close>

definition crowd :: "BrandMention list" where
  "crowd =
     replicate 2000 \<lparr>brand = ''Acme'', count = 1, context' = [''Acme''], citationUrls = []\<rparr>
       @ [\<lparr>brand = ''Zendesk'', count = 0, context' = [], citationUrls = []\<rparr>]"

section \<open>Properties of the mention analyzer\<close>


lemma char_of_code: "char_of (code c) = c"
  by (simp add: code_def)

lemma code_less: "code c < 256"
  by (simp add: code_def)



















lemma mojo_example:
  "extractBrandMentions other ''Mojolicious is great, unlike Mojo'' [''Mojo'']
     = Inr [\<lparr>brand = ''Mojo'', count = 1,
              context' = [''Mojolicious is great, unlike Mojo''], citationUrls = []\<rparr>]"
  by code_simp





text \<open>
  C10. A brand can have count 0 and a context sentence all the same: the sentences are
  chosen by containment, the count by word boundaries. For the text "Mojolicious" and the
  brand "Mojo" the analyzer returns count 0 and the one sentence.
\<close>

theorem count_zero_with_context:
  "extractBrandMentions other ''Mojolicious'' [''Mojo'']
     = Inr [\<lparr>brand = ''Mojo'', count = 0, context' = [''Mojolicious''], citationUrls = []\<rparr>]"
  by code_simp

text \<open>
  C2. The brand name goes into the pattern as it is. For "C++" the engine rejects the
  pattern and the analyzer throws; for "Notion.so" the dot matches any character, so
  "notion so" is counted although the name does not occur (and no sentence contains it).
\<close>

theorem special_characters_not_escaped:
  "extractBrandMentions other ''I like C++ a lot'' [''C++'']
     = Inl (SyntaxError (patternSource ''c++''))
   \<and> extractBrandMentions other ''A notion so good'' [''Notion.so'']
     = Inr [\<lparr>brand = ''Notion.so'', count = 1, context' = [], citationUrls = []\<rparr>]"
  by code_simp

section \<open>Properties of the citation extractor\<close>

lemma extractCitations_empty: "extractCitations [] = []"
  by (simp add: extractCitations_def)

lemma extractCitations_example:
  "extractCitations ''See [HubSpot](https://hubspot.com) and also https://hubspot.com/pricing.''
     = [''https://hubspot.com'', ''https://hubspot.com/pricing'']"
  by code_simp

text \<open>
  C4. The URLs of markdown links are pushed without a look at the list: the same URL in
  two links is returned twice.
\<close>

theorem duplicate_markdown_links_kept:
  "extractCitations ''[a](http://x.com) [b](http://x.com)'' = [''http://x.com'', ''http://x.com'']
   \<and> \<not> distinct (extractCitations ''[a](http://x.com) [b](http://x.com)'')"
  by code_simp

section \<open>Properties of the service\<close>

lemma logger_sent: "sent (logger l m w) = sent w"
  by (simp add: logger_def)

lemma logger_logged: "logged (logger l m w) = logged w @ [(l, m)]"
  by (simp add: logger_def)




lemma assignCitations_brand_count:
  "brand (assignCitations cs m) = brand m \<and> count (assignCitations cs m) = count m"
  by (simp add: assignCitations_def Let_def)

lemma storeRun_sent: "sent (snd (storeRun P cat bs provider cm mb ai ms w)) = sent w"
  by (auto simp: storeRun_def logger_def split: prod.splits sum.splits option.splits)


lemma checkVisibility_returns:
  assumes "providers provider = Some k"
    and "sdk P provider (generateVisibilityPrompt cat bs) = Inr t"
    and "extractBrandMentions (RegExp_other P) t bs = Inr ex"
  shows "\<exists>runId. fst (checkVisibility P providers cat bs provider cm mb w) =
           Inr \<lparr>category = cat, brands = bs,
                 mentions = map (assignCitations (extractCitations t)) ex,
                 totalMentions =
                   sum_list (map count (map (assignCitations (extractCitations t)) ex)),
                 timestamp = toISOString_now P, promptRunId = runId\<rparr>"
  using assms
  by (auto simp: checkVisibility_def queryAI_def Provider_query_def Let_def
           split: prod.splits sum.splits option.splits)

text \<open>The prompts that leave the process: none when the provider is not configured, else
  the one prompt of \<^verbatim>\<open>generateVisibilityPrompt\<close>, in competitor mode as well.\<close>

lemma checkVisibility_sent:
  "sent (snd (checkVisibility P providers cat bs provider cm mb w)) =
     (if providers provider = None then sent w
      else sent w @ [(provider, generateVisibilityPrompt cat bs)])"
proof (cases "providers provider")
  case None
  then show ?thesis
    by (simp add: checkVisibility_def queryAI_def logger_def)
next
  case (Some k)
  obtain a w1 where q: "queryAI P providers provider cat bs (logger Info ''Checking visibility'' w)
      = (a, w1)"
    by (cases "queryAI P providers provider cat bs (logger Info ''Checking visibility'' w)")
  then have w1: "sent w1 = sent w @ [(provider, generateVisibilityPrompt cat bs)]"
    using Some
    by (auto simp: queryAI_def Provider_query_def Let_def logger_def split: sum.splits)
  show ?thesis
  proof (cases a)
    case (Inl e)
    then show ?thesis
      using q w1 Some by (simp add: checkVisibility_def logger_def)
  next
    case (Inr ai)
    show ?thesis
    proof (cases "extractBrandMentions (RegExp_other P) (text' ai) bs")
      case (Inl e)
      then show ?thesis
        using q w1 Some Inr by (simp add: checkVisibility_def logger_def)
    next
      case ex: (Inr ex)
      obtain rid w2 where s: "storeRun P cat bs provider cm mb ai
          (map (assignCitations (citations ai)) ex) w1 = (rid, w2)"
        by (cases "storeRun P cat bs provider cm mb ai (map (assignCitations (citations ai)) ex) w1")
      have "sent w2 = sent w1"
        using storeRun_sent [of P cat bs provider cm mb ai "map (assignCitations (citations ai)) ex" w1] s
        by simp
      then show ?thesis
        using q w1 Some Inr ex s by (simp add: checkVisibility_def Let_def)
    qed
  qed
qed






text \<open>
  C9. In competitor mode the prompt sent to the provider is the one of
  \<^verbatim>\<open>generateVisibilityPrompt\<close> for the brands of the request: the main brand is not in
  it, and \<^verbatim>\<open>generateCompetitorPrompt\<close>, which would put it first, is not called.
\<close>

theorem competitor_prompt_without_main_brand:
  "sent (snd (POST (stubPlatform ''Foo and Bar'' False) onlyOpenAI competitorRequest emptyWorld))
     = [(openai, generateVisibilityPrompt ''CRM'' [''Foo'', ''Bar''])]
   \<and> \<not> str_includes (generateVisibilityPrompt ''CRM'' [''Foo'', ''Bar'']) ''Acme''
   \<and> str_includes (generateCompetitorPrompt ''CRM'' ''Acme'' [''Foo'', ''Bar''])
         ''Brands to consider: Acme, Foo, Bar''"
  by code_simp

section \<open>Properties of the route\<close>

lemma selectProvider_unknown:
  assumes "\<forall>p. given \<noteq> Some (providerName p)"
  shows "selectProvider given = openai"
proof -
  have "Some (providerName openai) \<noteq> given" "Some (providerName anthropic) \<noteq> given"
    "Some (providerName groq) \<noteq> given"
    using assms by metis+
  then show ?thesis
    by (simp add: selectProvider_def validProviders_def del: providerName.simps)
qed

lemma selectProvider_openai: "selectProvider (Some ''openai'') = openai"
  by (simp add: selectProvider_def validProviders_def)

lemma POST_valid:
  assumes "body_category b = Some cat" and "cat \<noteq> []"
    and "body_brands b = Some bs" and "bs \<noteq> []"
    and "body_isCompetitorMode b \<longrightarrow> truthy (body_mainBrand b)"
  shows "POST P providers b w =
     (case checkVisibility P providers cat bs (selectProvider (body_provider b))
             (body_isCompetitorMode b) (body_mainBrand b)
             (logger Info ''Processing visibility check request'' w) of
        (Inr result, w1) \<Rightarrow> (Success result, w1)
      | (Inl e, w1) \<Rightarrow> (ServerError e, logger Err ''Error checking visibility'' w1))"
  using assms by (auto simp: POST_def Let_def)

lemma POST_sent:
  assumes "body_category b = Some cat" and "cat \<noteq> []"
    and "body_brands b = Some bs" and "bs \<noteq> []"
    and "body_isCompetitorMode b \<longrightarrow> truthy (body_mainBrand b)"
  shows "sent (snd (POST P providers b w)) =
     (if providers (selectProvider (body_provider b)) = None then sent w
      else sent w @ [(selectProvider (body_provider b), generateVisibilityPrompt cat bs)])"
proof -
  let ?cv = "checkVisibility P providers cat bs (selectProvider (body_provider b))
               (body_isCompetitorMode b) (body_mainBrand b)
               (logger Info ''Processing visibility check request'' w)"
  have "sent (snd (POST P providers b w)) = sent (snd ?cv)"
    unfolding POST_valid [OF assms]
    by (cases ?cv) (auto simp: logger_sent split: sum.splits)
  then show ?thesis
    by (simp add: checkVisibility_sent logger_sent)
qed

lemma POST_unconfigured:
  assumes "body_category b = Some cat" and "cat \<noteq> []"
    and "body_brands b = Some bs" and "bs \<noteq> []"
    and "body_isCompetitorMode b \<longrightarrow> truthy (body_mainBrand b)"
    and "providers (selectProvider (body_provider b)) = None"
  shows "fst (POST P providers b w) =
     ServerError (Error (''Provider '' @ providerName (selectProvider (body_provider b))
       @ '' is not configured or available. Please check your API keys.''))"
  unfolding POST_valid [OF assms(1-5)]
  using assms(6) by (simp add: checkVisibility_def queryAI_def)

text \<open>
  C1, as it fails: the name "gemini" is none of the providers, OpenAI is configured, and
  the request succeeds after a call of OpenAI.
\<close>

theorem unknown_provider_counterexample:
  "fst (POST (stubPlatform ''Acme is fine'' False) onlyOpenAI geminiRequest emptyWorld)
     = Success \<lparr>category = ''CRM'', brands = [''Acme''],
                 mentions = [\<lparr>brand = ''Acme'', count = 1, context' = [''Acme is fine''],
                               citationUrls = []\<rparr>],
                 totalMentions = 1, timestamp = ''2025-01-01T00:00:00.000Z'',
                 promptRunId = None\<rparr>
   \<and> sent (snd (POST (stubPlatform ''Acme is fine'' False) onlyOpenAI geminiRequest emptyWorld))
     = [(openai, generateVisibilityPrompt ''CRM'' [''Acme''])]"
  by code_simp

text \<open>
  C1, amended. A provider name that is none of the known ones is replaced by the default
  provider \<^verbatim>\<open>openai\<close>: a valid request is handled as if it had named \<^verbatim>\<open>openai\<close>. It
  fails with the error of the provider that is not configured, before any prompt is sent,
  when OpenAI is not configured; when it is, the prompt goes to OpenAI.
\<close>

theorem unknown_provider_defaults_to_openai:
  assumes "body_category b = Some cat" and "cat \<noteq> []"
    and "body_brands b = Some bs" and "bs \<noteq> []"
    and "body_isCompetitorMode b \<longrightarrow> truthy (body_mainBrand b)"
    and "\<forall>p. body_provider b \<noteq> Some (providerName p)"
  shows "POST P providers b w = POST P providers (b\<lparr>body_provider := Some ''openai''\<rparr>) w
       \<and> (providers openai = None \<longrightarrow>
            fst (POST P providers b w) =
              ServerError (Error
                ''Provider openai is not configured or available. Please check your API keys.'')
            \<and> sent (snd (POST P providers b w)) = sent w)
       \<and> (providers openai \<noteq> None \<longrightarrow>
            sent (snd (POST P providers b w)) = sent w @ [(openai, generateVisibilityPrompt cat bs)])"
proof -
  have sel: "selectProvider (body_provider b) = openai"
    using assms(6) by (rule selectProvider_unknown)
  have "POST P providers (b\<lparr>body_provider := Some ''openai''\<rparr>) w =
     (case checkVisibility P providers cat bs openai (body_isCompetitorMode b) (body_mainBrand b)
             (logger Info ''Processing visibility check request'' w) of
        (Inr result, w1) \<Rightarrow> (Success result, w1)
      | (Inl e, w1) \<Rightarrow> (ServerError e, logger Err ''Error checking visibility'' w1))"
    using POST_valid [of "b\<lparr>body_provider := Some ''openai''\<rparr>" cat bs P providers w] assms(1-5)
    by (simp add: selectProvider_openai)
  then have "POST P providers b w = POST P providers (b\<lparr>body_provider := Some ''openai''\<rparr>) w"
    using POST_valid [OF assms(1-5), of P providers w] by (simp add: sel)
  moreover have "providers openai = None \<longrightarrow>
      fst (POST P providers b w) =
        ServerError (Error
          ''Provider openai is not configured or available. Please check your API keys.'')"
    using POST_unconfigured [OF assms(1-5), of providers P w] by (simp add: sel)
  moreover have "sent (snd (POST P providers b w)) =
      (if providers openai = None then sent w
       else sent w @ [(openai, generateVisibilityPrompt cat bs)])"
    using POST_sent [OF assms(1-5), of P providers w] by (simp add: sel)
  ultimately show ?thesis
    by simp
qed

theorem unknown_provider_defaults_to_openai_witness:
  "(\<forall>p. body_provider geminiRequest \<noteq> Some (providerName p))
   \<and> fst (POST (stubPlatform ''Acme is fine'' False) Map.empty geminiRequest emptyWorld)
       = ServerError (Error
           ''Provider openai is not configured or available. Please check your API keys.'')
   \<and> sent (snd (POST (stubPlatform ''Acme is fine'' False) Map.empty geminiRequest emptyWorld)) = []
   \<and> sent (snd (POST (stubPlatform ''Acme is fine'' False) onlyOpenAI geminiRequest emptyWorld))
       = [(openai, generateVisibilityPrompt ''CRM'' [''Acme''])]"
proof -
  have unknown: "\<forall>p. body_provider geminiRequest \<noteq> Some (providerName p)"
  proof
    fix p show "body_provider geminiRequest \<noteq> Some (providerName p)"
      by (cases p) (simp_all add: geminiRequest_def)
  qed
  have valid: "body_category geminiRequest = Some ''CRM''" "''CRM'' \<noteq> []"
    "body_brands geminiRequest = Some [''Acme'']" "[''Acme''] \<noteq> []"
    "body_isCompetitorMode geminiRequest \<longrightarrow> truthy (body_mainBrand geminiRequest)"
    by (simp_all add: geminiRequest_def)
  have configured: "onlyOpenAI openai \<noteq> None"
    by (simp add: onlyOpenAI_def AIService_def truthy_def)
  have none: "Map.empty openai = (None :: string option)"
    by simp
  note unconfigured =
    unknown_provider_defaults_to_openai [OF valid unknown, of "stubPlatform ''Acme is fine'' False"
      Map.empty emptyWorld, THEN conjunct2, THEN conjunct1, THEN mp, OF none]
  note sends =
    unknown_provider_defaults_to_openai [OF valid unknown, of "stubPlatform ''Acme is fine'' False"
      onlyOpenAI emptyWorld, THEN conjunct2, THEN conjunct2, THEN mp, OF configured]
  have "sent emptyWorld = []"
    by (simp add: emptyWorld_def)
  then show ?thesis
    using unknown unconfigured sends by simp
qed


lemma storeRun_run_failed:
  assumes "runCreate P cat (storedPrompt cat bs cm mb) (text' ai) (providerName provider)
             (database w) = (Inl e, lines, db1)"
  shows "fst (storeRun P cat bs provider cm mb ai ms w) = None"
    and "logged (snd (storeRun P cat bs provider cm mb ai ms w)) =
           logged w @ lines @ [(Warn, ''Failed to store visibility check in database'')]"
  using assms by (simp_all add: storeRun_def logger_def)

lemma storeRun_brands_failed:
  assumes "runCreate P cat (storedPrompt cat bs cm mb) (text' ai) (providerName provider)
             (database w) = (Inr run, lines1, db1)"
    and "storeBrands P (run_id run) ms bs db1 = (Some e, lines2, db2)"
  shows "fst (storeRun P cat bs provider cm mb ai ms w) = Some (run_id run)"
    and "logged (snd (storeRun P cat bs provider cm mb ai ms w)) =
           logged w @ lines1 @ lines2
             @ [(Warn, ''Failed to store visibility check in database'')]"
  using assms by (simp_all add: storeRun_def logger_def)


lemma citedReply_stored_run:
  "checkVisibility (stubPlatform citedReply True) onlyOpenAI ''CRM'' [''Acme''] openai False None
      emptyWorld
     = (Inr \<lparr>category = ''CRM'', brands = [''Acme''],
              mentions =
                [\<lparr>brand = ''Acme'', count = 1, context' = [''Acme is fine, see https://a''],
                   citationUrls = [''https://a.org'', ''https://b.org'']\<rparr>],
              totalMentions = 1, timestamp = ''2025-01-01T00:00:00.000Z'',
              promptRunId = Some 1\<rparr>,
        \<lparr>sent = [(openai, generateVisibilityPrompt ''CRM'' [''Acme''])],
         logged = [(Info, ''Checking visibility''),
                   (Info, ''Querying openai for category: CRM''),
                   (Err, ''Query execution failed''),
                   (Err, ''Error creating/updating mention''),
                   (Warn, ''Failed to store visibility check in database'')],
         database = 1\<rparr>)"
  by code_simp


section \<open>Properties of the persistence of mentions\<close>

lemma sameKey_pair: "sameKey r b m \<longleftrightarrow> (prompt_run_id m, brand_id m) = (r, b)"
  by (auto simp: sameKey_def)

lemma find_None_filter: "find p xs = None \<Longrightarrow> filter p xs = []"
  by (induction xs) (auto split: if_splits)

lemma find_Some_unique:
  "distinct (map f xs) \<Longrightarrow> find (\<lambda>x. f x = k) xs = Some y \<Longrightarrow> filter (\<lambda>x. f x = k) xs = [y]"
proof (induction xs)
  case Nil
  then show ?case by simp
next
  case (Cons x xs)
  show ?case
  proof (cases "f x = k")
    case True
    then have "y = x"
      using Cons.prems(2) by simp
    moreover have "f x \<notin> f ` set xs"
      using Cons.prems(1) by simp
    then have "\<forall>y \<in> set xs. f y \<noteq> k"
      using True by blast
    then have "filter (\<lambda>x. f x = k) xs = []"
      by (simp add: filter_empty_conv)
    ultimately show ?thesis
      using True by simp
  next
    case False
    then show ?thesis
      using Cons by simp
  qed
qed

lemma update_keeps_pairs:
  "map (\<lambda>m. (prompt_run_id m, brand_id m))
     (map (\<lambda>m'. if sameKey r b m'
                 then m'\<lparr>mentioned := m, mention_count := c, mention_context := x,
                         citation_urls := u\<rparr>
                 else m') ms)
   = map (\<lambda>m. (prompt_run_id m, brand_id m)) ms"
  by (induction ms) auto

lemma update_of_pair:
  "filter (sameKey r b)
     (map (\<lambda>m'. if sameKey r b m'
                 then m'\<lparr>mentioned := m, mention_count := c, mention_context := x,
                         citation_urls := u\<rparr>
                 else m') ms)
   = map (\<lambda>m'. m'\<lparr>mentioned := m, mention_count := c, mention_context := x,
                    citation_urls := u\<rparr>) (filter (sameKey r b) ms)"
  by (induction ms) (auto simp: sameKey_def)

text \<open>The statement keeps the pairs of the table distinct, whether it inserts, updates
  or fails.\<close>

lemma upsertStatement_unique:
  assumes "uniquePairs t"
  shows "uniquePairs (snd (upsertStatement now r b m c x u t))"
proof (cases "find (sameKey r b) (tbl_mentions t)")
  case None
  then have "filter (sameKey r b) (tbl_mentions t) = []"
    by (rule find_None_filter)
  then have "(r, b) \<notin> set (map (\<lambda>m. (prompt_run_id m, brand_id m)) (tbl_mentions t))"
    by (auto simp: filter_empty_conv sameKey_def)
  then show ?thesis
    using assms None by (simp add: upsertStatement_def Let_def uniquePairs_def)
next
  case (Some old)
  show ?thesis
    using assms Some
    by (simp add: upsertStatement_def Let_def uniquePairs_def update_keeps_pairs del: map_map)
qed

text \<open>After a statement that returned a row, that row is the only one of its pair, and
  it carries the values of the statement.\<close>

lemma upsertStatement_row:
  assumes "uniquePairs t"
    and "upsertStatement now r b m c x u t = (Inr row, t')"
  shows "filter (sameKey r b) (tbl_mentions t') = [row]"
    and "mentioned row = m \<and> mention_count row = c \<and> mention_context row = x
         \<and> citation_urls row = u"
proof -
  have both: "filter (sameKey r b) (tbl_mentions t') = [row]
      \<and> mentioned row = m \<and> mention_count row = c \<and> mention_context row = x
      \<and> citation_urls row = u"
  proof (cases "find (sameKey r b) (tbl_mentions t)")
    case None
    then have "filter (sameKey r b) (tbl_mentions t) = []"
      by (rule find_None_filter)
    then show ?thesis
      using assms(2) None
      by (auto simp: upsertStatement_def Let_def sameKey_def split: if_splits)
  next
    case (Some old)
    let ?excluded = "\<lambda>m'. m'\<lparr>mentioned := m, mention_count := c, mention_context := x,
                              citation_urls := u\<rparr>"
    have "find (\<lambda>m'. (prompt_run_id m', brand_id m') = (r, b)) (tbl_mentions t) = Some old"
      using Some by (simp add: sameKey_pair [abs_def])
    then have "filter (\<lambda>m'. (prompt_run_id m', brand_id m') = (r, b)) (tbl_mentions t) = [old]"
      using assms(1) unfolding uniquePairs_def by (rule find_Some_unique [rotated])
    then have one: "filter (sameKey r b) (tbl_mentions t) = [old]"
      by (simp add: sameKey_pair [abs_def])
    show ?thesis
      using assms(2) Some one
      by (auto simp: upsertStatement_def Let_def update_of_pair)
  qed
  show "filter (sameKey r b) (tbl_mentions t') = [row]"
    using both by simp
  show "mentioned row = m \<and> mention_count row = c \<and> mention_context row = x
         \<and> citation_urls row = u"
    using both by simp
qed

lemma createOrUpdate_cases:
  "MentionModel_createOrUpdate conn now r b m c x u t = upsertStatement now r b m c x u t
   \<or> MentionModel_createOrUpdate conn now r b m c x u t
        = (Inl (Error ''Supabase client not available''), t)"
  by (simp add: MentionModel_createOrUpdate_def SupabaseMentionModel_createOrUpdate_def)

lemma createOrUpdate_unique:
  assumes "uniquePairs t"
  shows "uniquePairs (snd (MentionModel_createOrUpdate conn now r b m c x u t))"
  using createOrUpdate_cases [of conn now r b m c x u t] upsertStatement_unique [OF assms]
    assms by auto

text \<open>
  C8. The table holds at most one mention per pair of run and brand, before and after
  every call of \<^verbatim>\<open>MentionModel.createOrUpdate\<close>, on PostgreSQL and on Supabase alike.
  When two calls for the same pair each return a row, the table then has exactly one row
  of that pair, the one returned by the second call, with the second call's values for
  \<^verbatim>\<open>mentioned\<close>, \<^verbatim>\<open>mention_count\<close>, \<^verbatim>\<open>context\<close> and \<^verbatim>\<open>citation_urls\<close>.
\<close>

theorem mention_upsert_last_write_wins:
  assumes "uniquePairs t"
    and "MentionModel_createOrUpdate conn now1 r b m1 c1 x1 u1 t = (Inr row1, t1)"
    and "MentionModel_createOrUpdate conn now2 r b m2 c2 x2 u2 t1 = (Inr row2, t2)"
  shows "uniquePairs t1 \<and> uniquePairs t2
       \<and> filter (sameKey r b) (tbl_mentions t2) = [row2]
       \<and> mentioned row2 = m2 \<and> mention_count row2 = c2
       \<and> mention_context row2 = x2 \<and> citation_urls row2 = u2"
proof -
  have t1: "uniquePairs t1"
    using createOrUpdate_unique [OF assms(1), of conn now1 r b m1 c1 x1 u1] assms(2) by simp
  have t2: "uniquePairs t2"
    using createOrUpdate_unique [OF t1, of conn now2 r b m2 c2 x2 u2] assms(3) by simp
  have "upsertStatement now2 r b m2 c2 x2 u2 t1 = (Inr row2, t2)"
    using createOrUpdate_cases [of conn now2 r b m2 c2 x2 u2 t1] assms(3) by auto
  then show ?thesis
    using upsertStatement_row [OF t1] t1 t2 by blast
qed

lemma seeded_first:
  "MentionModel_createOrUpdate conn 10 1 1 False 0 [] [] seededTables
     = (if useSupabase conn \<and> \<not> supabaseClient conn
        then (Inl (Error ''Supabase client not available''), seededTables)
        else (Inr firstRow, seededTables\<lparr>tbl_mentions := [firstRow], mentions_id_seq := 1\<rparr>))"
  by (simp add: MentionModel_createOrUpdate_def SupabaseMentionModel_createOrUpdate_def
      upsertStatement_def Let_def seededTables_def firstRow_def)

lemma seeded_second:
  "MentionModel_createOrUpdate conn 20 1 1 True 2 [''Acme is fine''] [''https://acme.com'']
       (seededTables\<lparr>tbl_mentions := [firstRow], mentions_id_seq := 1\<rparr>)
     = (if useSupabase conn \<and> \<not> supabaseClient conn
        then (Inl (Error ''Supabase client not available''),
              seededTables\<lparr>tbl_mentions := [firstRow], mentions_id_seq := 1\<rparr>)
        else (Inr secondRow, seededTables\<lparr>tbl_mentions := [secondRow], mentions_id_seq := 2\<rparr>))"
  by (simp add: MentionModel_createOrUpdate_def SupabaseMentionModel_createOrUpdate_def
      upsertStatement_def Let_def seededTables_def firstRow_def secondRow_def sameKey_def)

theorem mention_upsert_last_write_wins_witness:
  "uniquePairs seededTables
   \<and> MentionModel_createOrUpdate postgres 10 1 1 False 0 [] [] seededTables
       = (Inr firstRow, seededTables\<lparr>tbl_mentions := [firstRow], mentions_id_seq := 1\<rparr>)
   \<and> MentionModel_createOrUpdate postgres 20 1 1 True 2 [''Acme is fine''] [''https://acme.com'']
         (seededTables\<lparr>tbl_mentions := [firstRow], mentions_id_seq := 1\<rparr>)
       = (Inr secondRow, seededTables\<lparr>tbl_mentions := [secondRow], mentions_id_seq := 2\<rparr>)
   \<and> MentionModel_createOrUpdate supabase 10 1 1 False 0 [] [] seededTables
       = (Inr firstRow, seededTables\<lparr>tbl_mentions := [firstRow], mentions_id_seq := 1\<rparr>)
   \<and> MentionModel_createOrUpdate supabase 20 1 1 True 2 [''Acme is fine''] [''https://acme.com'']
         (seededTables\<lparr>tbl_mentions := [firstRow], mentions_id_seq := 1\<rparr>)
       = (Inr secondRow, seededTables\<lparr>tbl_mentions := [secondRow], mentions_id_seq := 2\<rparr>)
   \<and> filter (sameKey 1 1)
         (tbl_mentions (seededTables\<lparr>tbl_mentions := [secondRow], mentions_id_seq := 2\<rparr>))
       = [secondRow]
   \<and> mentioned secondRow = True \<and> mention_count secondRow = 2
   \<and> mention_context secondRow = [''Acme is fine'']
   \<and> citation_urls secondRow = [''https://acme.com'']"
proof -
  have seeded: "uniquePairs seededTables"
    by (simp add: uniquePairs_def seededTables_def)
  have pg1: "MentionModel_createOrUpdate postgres 10 1 1 False 0 [] [] seededTables
       = (Inr firstRow, seededTables\<lparr>tbl_mentions := [firstRow], mentions_id_seq := 1\<rparr>)"
    using seeded_first [of postgres] by (simp add: postgres_def)
  have pg2: "MentionModel_createOrUpdate postgres 20 1 1 True 2 [''Acme is fine'']
         [''https://acme.com''] (seededTables\<lparr>tbl_mentions := [firstRow], mentions_id_seq := 1\<rparr>)
       = (Inr secondRow, seededTables\<lparr>tbl_mentions := [secondRow], mentions_id_seq := 2\<rparr>)"
    using seeded_second [of postgres] by (simp add: postgres_def)
  have sb1: "MentionModel_createOrUpdate supabase 10 1 1 False 0 [] [] seededTables
       = (Inr firstRow, seededTables\<lparr>tbl_mentions := [firstRow], mentions_id_seq := 1\<rparr>)"
    using seeded_first [of supabase] by (simp add: supabase_def)
  have sb2: "MentionModel_createOrUpdate supabase 20 1 1 True 2 [''Acme is fine'']
         [''https://acme.com''] (seededTables\<lparr>tbl_mentions := [firstRow], mentions_id_seq := 1\<rparr>)
       = (Inr secondRow, seededTables\<lparr>tbl_mentions := [secondRow], mentions_id_seq := 2\<rparr>)"
    using seeded_second [of supabase] by (simp add: supabase_def)
  show ?thesis
    using seeded pg1 pg2 sb1 sb2
      mention_upsert_last_write_wins [OF seeded pg1 pg2]
      mention_upsert_last_write_wins [OF seeded sb1 sb2]
    by blast
qed

section \<open>Properties of the visibility score\<close>

lemma roundToDouble_1: "roundToDouble 1 = 1"
  by code_simp

lemma roundToDouble_100: "roundToDouble 100 = 100"
  by code_simp

lemma fixed1_1000: "fixed1 1000 = ''100.0''"
  by code_simp

lemma score_2000_of_2001:
  "toFixed1 (Number_times (Number_divide 2000 2001) 100) = ''100.0''"
  by code_simp

text \<open>The binary exponent of a positive rational.\<close>

lemma exponent_bounds:
  assumes "0 < x"
  shows "2 powi exponent x \<le> x" and "x < 2 powi (exponent x + 1)"
proof -
  obtain p q where pq: "quotient_of x = (p, q)"
    by (cases "quotient_of x")
  have q: "0 < q"
    using pq by (rule quotient_of_denom_pos)
  have x: "x = of_int p / of_int q"
    using pq by (rule quotient_of_div)
  have p: "0 < p"
    using assms q x by (simp add: zero_less_divide_iff)
  define d where "d = bitlen p - bitlen q"
  have bp: "1 \<le> bitlen p" and bq: "1 \<le> bitlen q"
    using p q by (simp_all add: bitlen_alt_def)
  have "(2::int) ^ nat (bitlen p - 1) \<le> p" "p < 2 ^ nat (bitlen p)"
    using bitlen_bounds [OF p] by simp_all
  then have "(of_int (2 ^ nat (bitlen p - 1)) :: rat) \<le> of_int p"
    "(of_int p :: rat) < of_int (2 ^ nat (bitlen p))"
    by (simp_all only: of_int_le_iff of_int_less_iff)
  then have p_lo: "(2::rat) powi (bitlen p - 1) \<le> of_int p"
    and p_hi: "(of_int p :: rat) < 2 powi bitlen p"
    using bp by (simp_all add: power_int_def)
  have "(2::int) ^ nat (bitlen q - 1) \<le> q" "q < 2 ^ nat (bitlen q)"
    using bitlen_bounds [OF q] by simp_all
  then have "(of_int (2 ^ nat (bitlen q - 1)) :: rat) \<le> of_int q"
    "(of_int q :: rat) < of_int (2 ^ nat (bitlen q))"
    by (simp_all only: of_int_le_iff of_int_less_iff)
  then have q_lo: "(2::rat) powi (bitlen q - 1) \<le> of_int q"
    and q_hi: "(of_int q :: rat) < 2 powi bitlen q"
    using bq by (simp_all add: power_int_def)
  have qpos: "(0::rat) < of_int q"
    using q by simp
  have lo: "(2::rat) powi (d - 1) < x"
  proof -
    have "(2::rat) powi (d - 1) * of_int q < 2 powi (d - 1) * 2 powi bitlen q"
      using q_hi by simp
    also have "\<dots> = 2 powi (bitlen p - 1)"
      by (simp add: d_def power_int_add [symmetric])
    also have "\<dots> \<le> of_int p"
      by (rule p_lo)
    finally show ?thesis
      using qpos by (simp add: x pos_less_divide_eq)
  qed
  have hi: "x < (2::rat) powi (d + 1)"
  proof -
    have "of_int p < (2::rat) powi bitlen p"
      by (rule p_hi)
    also have "\<dots> = 2 powi (d + 1) * 2 powi (bitlen q - 1)"
      by (simp add: d_def power_int_add [symmetric])
    also have "\<dots> \<le> 2 powi (d + 1) * of_int q"
      using q_lo by simp
    finally show ?thesis
      using qpos by (simp add: x pos_divide_less_eq)
  qed
  have e: "exponent x = (if 2 powi d \<le> x then d else d - 1)"
    by (simp add: exponent_def pq d_def Let_def)
  show "2 powi exponent x \<le> x"
    using lo by (simp add: e)
  show "x < 2 powi (exponent x + 1)"
    using hi by (simp add: e)
qed

text \<open>Rounding to an integer moves by at most one half and does not cross an integer.\<close>

lemma roundTiesToEven_upper: "of_int (roundTiesToEven q) \<le> q + 1 / 2"
proof -
  have below: "of_int \<lfloor>q\<rfloor> \<le> q + 1 / 2"
    using of_int_floor_le [of q] by linarith
  consider (down) "q - of_int \<lfloor>q\<rfloor> < 1 / 2" | (up) "1 / 2 < q - of_int \<lfloor>q\<rfloor>"
    | (tie) "q - of_int \<lfloor>q\<rfloor> = 1 / 2"
    by linarith
  then show ?thesis
  proof cases
    case down
    then have "roundTiesToEven q = \<lfloor>q\<rfloor>"
      by (simp add: roundTiesToEven_def Let_def)
    then have "(of_int (roundTiesToEven q) :: rat) = of_int \<lfloor>q\<rfloor>"
      by simp
    then show ?thesis
      using below by linarith
  next
    case up
    then have "roundTiesToEven q = \<lfloor>q\<rfloor> + 1"
      by (simp add: roundTiesToEven_def Let_def)
    then have "(of_int (roundTiesToEven q) :: rat) = of_int \<lfloor>q\<rfloor> + 1"
      by simp
    then show ?thesis
      using up by linarith
  next
    case tie
    then have "roundTiesToEven q = \<lfloor>q\<rfloor> \<or> roundTiesToEven q = \<lfloor>q\<rfloor> + 1"
      by (simp add: roundTiesToEven_def Let_def)
    then have "(of_int (roundTiesToEven q) :: rat) = of_int \<lfloor>q\<rfloor>
        \<or> (of_int (roundTiesToEven q) :: rat) = of_int \<lfloor>q\<rfloor> + 1"
      by auto
    then show ?thesis
      using tie below by linarith
  qed
qed

lemma roundTiesToEven_le:
  assumes "q \<le> of_int N"
  shows "roundTiesToEven q \<le> N"
proof -
  have f: "\<lfloor>q\<rfloor> \<le> N"
    using assms by (simp add: floor_le_iff)
  show ?thesis
  proof (cases "\<lfloor>q\<rfloor> = N")
    case True
    then have "q - of_int \<lfloor>q\<rfloor> \<le> 0"
      using assms by simp
    then show ?thesis
      using True by (simp add: roundTiesToEven_def Let_def)
  next
    case False
    then have "\<lfloor>q\<rfloor> + 1 \<le> N"
      using f by simp
    then show ?thesis
      using f by (auto simp: roundTiesToEven_def Let_def)
  qed
qed

lemma roundTiesToEven_nonneg: "0 \<le> q \<Longrightarrow> 0 \<le> roundTiesToEven q"
  by (auto simp: roundTiesToEven_def Let_def)

text \<open>Rounding a positive rational to a double: the result is not negative, stays below
  the next power of two, and exceeds the argument by at most the fraction \<open>2 powi - 53\<close>
  of it.\<close>

lemma roundToDouble_pos:
  assumes "0 < x"
  shows "0 \<le> roundToDouble x"
    and "roundToDouble x \<le> 2 powi (exponent x + 1)"
    and "roundToDouble x \<le> x + x / 2 ^ 53"
proof -
  define u :: rat where "u = 2 powi (exponent x - 52)"
  have u: "0 < u"
    by (simp add: u_def)
  have r: "roundToDouble x = of_int (roundTiesToEven (x / u)) * u"
    using assms by (simp add: roundToDouble_def u_def)
  have "0 \<le> x / u"
    using assms u by simp
  then have "0 \<le> roundTiesToEven (x / u)"
    by (rule roundTiesToEven_nonneg)
  then show "0 \<le> roundToDouble x"
    using u by (simp add: r)
  have split: "(2::rat) powi (exponent x + 1) = 2 ^ 53 * u"
  proof -
    have "(2::rat) powi (53 + (exponent x - 52)) = 2 powi 53 * 2 powi (exponent x - 52)"
      by (rule power_int_add) simp
    moreover have "53 + (exponent x - 52) = exponent x + 1"
      by simp
    ultimately show ?thesis
      by (simp add: u_def)
  qed
  have "x / u \<le> 2 ^ 53"
    using exponent_bounds(2) [OF assms] u by (simp add: split pos_divide_le_eq)
  then have "x / u \<le> of_int (2 ^ 53)"
    by simp
  then have "roundTiesToEven (x / u) \<le> 2 ^ 53"
    by (rule roundTiesToEven_le)
  then have "(of_int (roundTiesToEven (x / u)) :: rat) \<le> of_int (2 ^ 53)"
    by (simp only: of_int_le_iff)
  then have "of_int (roundTiesToEven (x / u)) * u \<le> 2 ^ 53 * u"
    using u by simp
  then show "roundToDouble x \<le> 2 powi (exponent x + 1)"
    by (simp add: r split)
  have low: "2 ^ 52 * u \<le> x"
  proof -
    have "(2::rat) powi (52 + (exponent x - 52)) = 2 powi 52 * 2 powi (exponent x - 52)"
      by (rule power_int_add) simp
    moreover have "52 + (exponent x - 52) = exponent x"
      by simp
    ultimately show ?thesis
      using exponent_bounds(1) [OF assms] by (simp add: u_def)
  qed
  have "of_int (roundTiesToEven (x / u)) * u \<le> (x / u + 1 / 2) * u"
    using roundTiesToEven_upper [of "x / u"] u by (simp only: mult_le_cancel_right_pos)
  also have "\<dots> = x + u / 2"
    using u by (simp add: field_simps)
  also have "\<dots> \<le> x + x / 2 ^ 53"
    using low by (simp add: field_simps)
  finally show "roundToDouble x \<le> x + x / 2 ^ 53"
    by (simp add: r)
qed

lemma roundToDouble_0: "roundToDouble 0 = 0"
  by (simp add: roundToDouble_def)

lemma exponent_less:
  assumes "0 < x" and "x < 2 powi n"
  shows "exponent x < n"
proof (rule ccontr)
  assume "\<not> exponent x < n"
  then have "n \<le> exponent x"
    by simp
  then have "(2::rat) powi n \<le> 2 powi exponent x"
    by (intro power_int_increasing) simp_all
  then show False
    using exponent_bounds(1) [OF assms(1)] assms(2) by simp
qed

text \<open>A quotient of counts is a double in \<open>[0, 1]\<close>, and 100 times it a double in
  \<open>[0, 100]\<close>.\<close>

lemma roundToDouble_unit:
  assumes "0 \<le> x" and "x \<le> 1"
  shows "0 \<le> roundToDouble x \<and> roundToDouble x \<le> 1"
proof (cases "x = 0 \<or> x = 1")
  case True
  then show ?thesis
    by (auto simp: roundToDouble_0 roundToDouble_1)
next
  case False
  then have pos: "0 < x" and "x < 2 powi 0"
    using assms by simp_all
  then have "exponent x + 1 \<le> 0"
    using exponent_less [of x 0] by simp
  then have "(2::rat) powi (exponent x + 1) \<le> 2 powi 0"
    by (intro power_int_increasing) simp_all
  then show ?thesis
    using roundToDouble_pos(1,2) [OF pos] by simp
qed

lemma roundToDouble_percent:
  assumes "0 \<le> y" and "y \<le> 100"
  shows "0 \<le> roundToDouble y \<and> roundToDouble y \<le> 100"
proof (cases "y = 0")
  case True
  then show ?thesis
    by (simp add: roundToDouble_0)
next
  case False
  then have pos: "0 < y"
    using assms by simp
  have "y < 2 powi 7"
    using assms(2) by simp
  then have e: "exponent y \<le> 6"
    using exponent_less [OF pos, of 7] by simp
  show ?thesis
  proof (cases "exponent y = 6")
    case True
    have u: "(2::rat) powi (exponent y - 52) = 1 / 2 ^ 46"
      by (simp add: True power_int_minus_divide)
    have "y / (1 / 2 ^ 46) \<le> of_int (100 * 2 ^ 46)"
      using assms(2) by simp
    then have "roundTiesToEven (y / (1 / 2 ^ 46)) \<le> 100 * 2 ^ 46"
      by (rule roundTiesToEven_le)
    then have "(of_int (roundTiesToEven (y / (1 / 2 ^ 46))) :: rat) \<le> of_int (100 * 2 ^ 46)"
      by (simp only: of_int_le_iff)
    then have "of_int (roundTiesToEven (y / (1 / 2 ^ 46))) * (1 / 2 ^ 46) \<le> (100 :: rat)"
      by simp
    then have "roundToDouble y \<le> 100"
      using pos by (simp add: roundToDouble_def u)
    then show ?thesis
      using roundToDouble_pos(1) [OF pos] by simp
  next
    case False
    then have "exponent y + 1 \<le> 6"
      using e by simp
    then have "(2::rat) powi (exponent y + 1) \<le> 2 powi 6"
      by (intro power_int_increasing) simp_all
    then show ?thesis
      using roundToDouble_pos(1,2) [OF pos] by simp
  qed
qed

text \<open>The double behind the score, for \<open>m\<close> mentioned brands out of \<open>n\<close>.\<close>

lemma score_value_range:
  assumes "m \<le> n" and "0 < n"
  shows "0 \<le> Number_times (Number_divide (of_nat m) (of_nat n)) 100"
    and "Number_times (Number_divide (of_nat m) (of_nat n)) 100 \<le> 100"
proof -
  have "(0::rat) \<le> of_nat m / of_nat n" "(of_nat m :: rat) / of_nat n \<le> 1"
    using assms by simp_all
  then have "0 \<le> roundToDouble (of_nat m / of_nat n) \<and> roundToDouble (of_nat m / of_nat n) \<le> 1"
    by (rule roundToDouble_unit)
  then have "0 \<le> roundToDouble (of_nat m / of_nat n) * 100"
    "roundToDouble (of_nat m / of_nat n) * 100 \<le> 100"
    by simp_all
  then have "0 \<le> roundToDouble (roundToDouble (of_nat m / of_nat n) * 100)
      \<and> roundToDouble (roundToDouble (of_nat m / of_nat n) * 100) \<le> 100"
    by (rule roundToDouble_percent)
  then show "0 \<le> Number_times (Number_divide (of_nat m) (of_nat n)) 100"
    and "Number_times (Number_divide (of_nat m) (of_nat n)) 100 \<le> 100"
    by (simp_all add: Number_times_def Number_divide_def)
qed

lemma score_value_full:
  assumes "0 < n"
  shows "Number_times (Number_divide (of_nat n) (of_nat n)) 100 = 100"
  using assms by (simp add: Number_times_def Number_divide_def roundToDouble_1 roundToDouble_100)

lemma roundToDouble_nonneg_upper:
  assumes "0 \<le> x"
  shows "roundToDouble x \<le> x + x / 2 ^ 53"
  using assms roundToDouble_pos(3) [of x] by (cases "x = 0") (simp_all add: roundToDouble_0)

lemma score_value_below:
  assumes "m < n" and "n < 2000"
  shows "Number_times (Number_divide (of_nat m) (of_nat n)) 100 < 1999 / 20"
proof -
  define x :: rat where "x = of_nat m / of_nat n"
  define a where "a = roundToDouble x"
  have n: "(0::rat) < of_nat n"
    using assms(1) by simp
  have "1999 * m \<le> 1998 * n"
    using assms by linarith
  then have "(of_nat (1999 * m) :: rat) \<le> of_nat (1998 * n)"
    by (simp only: of_nat_le_iff)
  then have "1999 * (of_nat m :: rat) \<le> 1998 * of_nat n"
    by simp
  then have x: "0 \<le> x" "x \<le> 1998 / 1999"
    using n by (simp_all add: x_def field_simps)
  have a0: "0 \<le> a"
    using roundToDouble_unit [of x] x by (simp add: a_def)
  have "a \<le> x + x / 2 ^ 53"
    unfolding a_def using x(1) by (rule roundToDouble_nonneg_upper)
  also have "\<dots> = x * (1 + 1 / 2 ^ 53)"
    by (simp add: field_simps)
  also have "\<dots> \<le> 1998 / 1999 * (1 + 1 / 2 ^ 53)"
    using x(2) by (intro mult_right_mono) simp_all
  finally have a: "a \<le> 1998 / 1999 * (1 + 1 / 2 ^ 53)" .
  have "roundToDouble (a * 100) \<le> a * 100 + a * 100 / 2 ^ 53"
    using a0 by (intro roundToDouble_nonneg_upper) simp
  also have "\<dots> = a * (100 * (1 + 1 / 2 ^ 53))"
    by (simp add: field_simps)
  also have "\<dots> \<le> 1998 / 1999 * (1 + 1 / 2 ^ 53) * (100 * (1 + 1 / 2 ^ 53))"
    using a by (intro mult_right_mono) simp_all
  also have "\<dots> < 1999 / 20"
    by simp
  finally show ?thesis
    by (simp add: Number_times_def Number_divide_def a_def x_def)
qed

text \<open>\<^verbatim>\<open>toFixed(1)\<close> of a double in \<open>[0, 100]\<close>.\<close>

lemma toFixed1_range:
  assumes "0 \<le> v" and "v \<le> 100"
  shows "\<exists>k \<le> 1000. toFixed1 v = fixed1 k"
proof -
  define z where "z = \<lfloor>v * 10 + 1 / 2\<rfloor>"
  have "z \<le> 1000"
    using assms(2) by (simp add: z_def floor_le_iff)
  then have "nat z \<le> 1000"
    by simp
  moreover have "toFixed1 v = fixed1 (nat z)"
    using assms(1) by (simp add: toFixed1_def z_def)
  ultimately show ?thesis
    by blast
qed

lemma toFixed1_100: "toFixed1 100 = ''100.0''"
  by code_simp

lemma digits_small: "j < 10 \<Longrightarrow> digits j = [digitChar j]"
  by (subst digits.simps) simp

lemma length_digits_two:
  assumes "j < 100"
  shows "length (digits j) \<le> 2"
proof -
  have "j div 10 < 10"
    using assms by simp
  then have "digits (j div 10) = [digitChar (j div 10)]"
    by (rule digits_small)
  then show ?thesis
    by (subst digits.simps) simp
qed

lemma fixed1_below_1000:
  assumes "k < 1000"
  shows "fixed1 k \<noteq> ''100.0''"
proof -
  have "length (digits (k div 10)) \<le> 2"
    using assms by (intro length_digits_two) simp
  then have "length (fixed1 k) \<le> 4"
    by (simp add: fixed1_def digits_small)
  then show ?thesis
    by auto
qed

lemma toFixed1_below:
  assumes "0 \<le> v" and "v < 1999 / 20"
  shows "toFixed1 v \<noteq> ''100.0''"
proof -
  define z where "z = \<lfloor>v * 10 + 1 / 2\<rfloor>"
  have "v * 10 + 1 / 2 < 1000"
    using assms(2) by simp
  then have "z < 1000"
    by (simp add: z_def floor_less_iff)
  then have "nat z < 1000"
    by simp
  then have "fixed1 (nat z) \<noteq> ''100.0''"
    by (rule fixed1_below_1000)
  moreover have "toFixed1 v = fixed1 (nat z)"
    using assms(1) by (simp add: toFixed1_def z_def)
  ultimately show ?thesis
    by simp
qed

lemma mentioned_all:
  "length (filter (\<lambda>m. count m > 0) ms) = length ms \<longleftrightarrow> (\<forall>m \<in> set ms. count m > 0)"
proof
  assume "length (filter (\<lambda>m. count m > 0) ms) = length ms"
  then show "\<forall>m \<in> set ms. count m > 0"
    using length_filter_less [of _ ms "\<lambda>m. count m > 0"] by (metis nat_less_le)
next
  assume "\<forall>m \<in> set ms. count m > 0"
  then show "length (filter (\<lambda>m. count m > 0) ms) = length ms"
    by simp
qed

lemma calculateVisibilityScore_eq:
  assumes "0 < n"
  shows "calculateVisibilityScore ms n =
     JString (toFixed1 (Number_times
       (Number_divide (of_nat (length (filter (\<lambda>m. count m > 0) ms))) (of_nat n)) 100))"
  using assms by (simp add: calculateVisibilityScore_def)

text \<open>
  C7, as it fails: with 2001 tracked brands of which the last has count 0, the score is
  the string "100.0" (2000/2001 is 99.95 per cent, which \<^verbatim>\<open>toFixed(1)\<close> rounds up); and
  with no tracked brand every brand has a positive count, and the score is 0.
\<close>

theorem visibility_score_counterexample:
  "length crowd = 2001 \<and> count (crowd ! 2000) = 0
   \<and> calculateVisibilityScore crowd 2001 = JString ''100.0''
   \<and> calculateVisibilityScore [] 0 = JNumber 0"
proof -
  have "length (filter (\<lambda>m. count m > 0) crowd) = 2000"
    by (simp add: crowd_def)
  then have "calculateVisibilityScore crowd 2001 = JString ''100.0''"
    using calculateVisibilityScore_eq [of 2001 crowd] score_2000_of_2001 by simp
  moreover have "count (crowd ! 2000) = 0"
    by (simp add: crowd_def nth_append)
  ultimately show ?thesis
    by (simp add: crowd_def calculateVisibilityScore_def)
qed

text \<open>
  C7, amended. For the mentions \<open>ms\<close> of a brand list \<open>B\<close>: the score of the empty list is
  the number 0; the score of any other list is the string, with one decimal, of \<open>k\<close> tenths
  for some \<open>k\<close> from 0 to 1000, that is of a value in \<open>[0, 100]\<close>; it is "100.0" when every
  brand has a positive count, and, for fewer than 2000 brands, only then.
\<close>

theorem visibility_score_bounds:
  assumes "map brand ms = B"
  shows "(B = [] \<longrightarrow> calculateVisibilityScore ms (length B) = JNumber 0)
       \<and> (B \<noteq> [] \<longrightarrow> (\<exists>k \<le> 1000. calculateVisibilityScore ms (length B) = JString (fixed1 k)))
       \<and> (B \<noteq> [] \<and> (\<forall>m \<in> set ms. count m > 0) \<longrightarrow>
            calculateVisibilityScore ms (length B) = JString ''100.0'')
       \<and> (B \<noteq> [] \<and> length B < 2000
            \<and> calculateVisibilityScore ms (length B) = JString ''100.0'' \<longrightarrow>
            (\<forall>m \<in> set ms. count m > 0))"
proof (cases "B = []")
  case True
  then show ?thesis
    by (simp add: calculateVisibilityScore_def)
next
  case False
  define n where "n = length B"
  define k where "k = length (filter (\<lambda>m. count m > 0) ms)"
  define v where "v = Number_times (Number_divide (of_nat k) (of_nat n)) 100"
  have len: "length ms = n"
    using assms by (auto simp: n_def)
  have n: "0 < n"
    using False by (simp add: n_def)
  have k: "k \<le> n"
    unfolding k_def len [symmetric] by (rule length_filter_le)
  have score: "calculateVisibilityScore ms n = JString (toFixed1 v)"
    using calculateVisibilityScore_eq [OF n] by (simp add: v_def k_def)
  have v: "0 \<le> v" "v \<le> 100"
    using score_value_range [OF k n] by (simp_all add: v_def)
  have range: "\<exists>j \<le> 1000. calculateVisibilityScore ms n = JString (fixed1 j)"
    using toFixed1_range [OF v] by (simp add: score)
  have full: "calculateVisibilityScore ms n = JString ''100.0''" if "\<forall>m \<in> set ms. count m > 0"
  proof -
    have "k = n"
      using that mentioned_all [of ms] by (simp add: k_def len)
    then have "v = 100"
      using score_value_full [OF n] by (simp add: v_def)
    then show ?thesis
      by (simp add: score toFixed1_100)
  qed
  have only: "\<forall>m \<in> set ms. count m > 0"
    if "n < 2000" and "calculateVisibilityScore ms n = JString ''100.0''"
  proof (rule ccontr)
    assume "\<not> (\<forall>m \<in> set ms. count m > 0)"
    then have "k \<noteq> n"
      using mentioned_all [of ms] by (simp add: k_def len)
    then have "k < n"
      using k by simp
    then have "v < 1999 / 20"
      unfolding v_def using that(1) by (rule score_value_below)
    then have "toFixed1 v \<noteq> ''100.0''"
      using v(1) by (intro toFixed1_below)
    then show False
      using that(2) by (simp add: score)
  qed
  show ?thesis
    using False range full only unfolding n_def by blast
qed

theorem visibility_score_bounds_witness:
  "map brand [\<lparr>brand = ''Acme'', count = 3, context' = [''Acme is fine''], citationUrls = []\<rparr>]
     = [''Acme'']
   \<and> calculateVisibilityScore
        [\<lparr>brand = ''Acme'', count = 3, context' = [''Acme is fine''], citationUrls = []\<rparr>]
        (length [''Acme'']) = JString ''100.0''
   \<and> calculateVisibilityScore [] (length (map brand ([] :: BrandMention list))) = JNumber 0"
proof -
  let ?ms = "[\<lparr>brand = ''Acme'', count = 3, context' = [''Acme is fine''], citationUrls = []\<rparr>]"
  have over: "map brand ?ms = [''Acme'']"
    by simp
  have all: "[''Acme''] \<noteq> [] \<and> (\<forall>m \<in> set ?ms. count m > 0)"
    by simp
  have none: "map brand ([] :: BrandMention list) = []"
    by simp
  show ?thesis
    using over
      visibility_score_bounds [OF over, THEN conjunct2, THEN conjunct2, THEN conjunct1, THEN mp,
        OF all]
      visibility_score_bounds [OF refl, of "[] :: BrandMention list", THEN conjunct1, THEN mp,
        OF none]
    by (intro conjI)
qed

end
